theory Spec2Isabelle
  imports
    Main
    "HOL-Library.Sublist"
    "HOL-Library.AList"
    "HOL-Library.Char_ord"
    "HOL-Library.List_Lexorder"
begin

section \<open>tvm: a Terraform version manager (src/tvm.py)\<close>

text \<open>
  The program is a sequence of calls into the Python standard library: it reads the host
  platform, talks to the operator on the console, fetches an archive over HTTP and
  manipulates files under one directory. The embedding passes an explicit \<open>world\<close>
  (file system, console, log of HTTP requests) through every function of \<^verbatim>\<open>tvm.py\<close>, and
  returns a \<open>result\<close> that is a normal return, \<^verbatim>\<open>sys.exit(code)\<close> or an uncaught exception.

  Scope of the file-system model. The disk lists entries under their real paths. A path
  that the program passes to the library is resolved to a real path one component after
  the other, as the kernel does it: symbolic links are followed wherever they stand, to a
  file or to a directory, and \<^verbatim>\<open>.\<close>, \<^verbatim>\<open>..\<close> and doubled slashes are interpreted. A relative
  path is resolved from the root directory, as if the process ran there. A directory
  carries one permission flag: whether the process may add and remove entries in it. The
  order in which a directory with several entries is read is the file system's choice; the
  embedding reads it in the order of the list, and no statement below depends on that
  order. Strings are byte strings, and \<^verbatim>\<open>str.lower\<close> acts on the letters A to Z.

  The statements are about the functions of the module. The code at module level that
  creates the managed directory when it is missing (lines 180 to 184) runs before any of
  them and is not part of the embedding.
\<close>

subsection \<open>Strings\<close>

definition lower_char :: "char \<Rightarrow> char" where
  "lower_char c =
     (case map_of (zip ''ABCDEFGHIJKLMNOPQRSTUVWXYZ'' ''abcdefghijklmnopqrstuvwxyz'') c of
        Some l \<Rightarrow> l
      | None \<Rightarrow> c)"

definition lower :: "string \<Rightarrow> string" where
  "lower s = map lower_char s"

text \<open>\<^verbatim>\<open>s.rstrip('/')\<close>\<close>

definition rstrip_slash :: "string \<Rightarrow> string" where
  "rstrip_slash s = rev (dropWhile (\<lambda>c. c = CHR ''/'') (rev s))"

text \<open>The format specification \<^verbatim>\<open>{s:<n}\<close>: pad with spaces on the right up to width \<open>n\<close>.\<close>

definition ljust :: "nat \<Rightarrow> string \<Rightarrow> string" where
  "ljust n s = s @ replicate (n - length s) CHR '' ''"

text \<open>Decimal rendering of an integer, as an f-string prints \<^verbatim>\<open>resp.status_code\<close>.\<close>

fun digits :: "nat \<Rightarrow> string" where
  "digits n =
     (if n < 10 then [char_of (48 + n)]
      else digits (n div 10) @ [char_of (48 + n mod 10)])"

declare digits.simps [simp del]

definition str_int :: "int \<Rightarrow> string" where
  "str_int i = (if i < 0 then CHR ''-'' # digits (nat (- i)) else digits (nat i))"

text \<open>\<^verbatim>\<open>s.split('/')\<close>\<close>

fun split_slash :: "string \<Rightarrow> string list" where
  "split_slash [] = [[]]"
| "split_slash (c # s) =
     (if c = CHR ''/'' then [] # split_slash s
      else case split_slash s of x # xs \<Rightarrow> (c # x) # xs | [] \<Rightarrow> [[c]])"

subsection \<open>Paths (posixpath)\<close>

definition basename :: "string \<Rightarrow> string" where
  "basename p = rev (takeWhile (\<lambda>c. c \<noteq> CHR ''/'') (rev p))"

definition dirname :: "string \<Rightarrow> string" where
  "dirname p =
     (let head = rev (dropWhile (\<lambda>c. c \<noteq> CHR ''/'') (rev p))
      in if head \<noteq> [] \<and> \<not> list_all (\<lambda>c. c = CHR ''/'') head
         then rstrip_slash head else head)"

definition path_join :: "string \<Rightarrow> string \<Rightarrow> string" where
  "path_join a b =
     (if prefix ''/'' b then b
      else if a = [] \<or> last a = CHR ''/'' then a @ b
      else a @ ''/'' @ b)"

subsection \<open>Exceptions and results\<close>

datatype error =
    FileNotFoundError
  | FileExistsError
  | IsADirectoryError
  | NotADirectoryError
  | PermissionError
  | OSError string
  | ShutilError
  | RecursionError
  | RequestException
  | BadZipFile
  | UnboundLocalError
  | ValueError
  | KeyError
  | EOFError

text \<open>\<^verbatim>\<open>except OSError\<close> catches the class and its subclasses (\<^verbatim>\<open>shutil.Error\<close> is one).\<close>

fun is_OSError :: "error \<Rightarrow> bool" where
  "is_OSError FileNotFoundError = True"
| "is_OSError FileExistsError = True"
| "is_OSError IsADirectoryError = True"
| "is_OSError NotADirectoryError = True"
| "is_OSError PermissionError = True"
| "is_OSError (OSError s) = True"
| "is_OSError ShutilError = True"
| "is_OSError RequestException = True"
| "is_OSError e = False"

text \<open>What \<^verbatim>\<open>{err.strerror}\<close> prints; an \<open>OSError\<close> carries that text.\<close>

fun strerror :: "error \<Rightarrow> string" where
  "strerror FileNotFoundError = ''No such file or directory''"
| "strerror FileExistsError = ''File exists''"
| "strerror IsADirectoryError = ''Is a directory''"
| "strerror NotADirectoryError = ''Not a directory''"
| "strerror PermissionError = ''Permission denied''"
| "strerror (OSError s) = s"
| "strerror e = ''None''"

datatype 'a result = Ok 'a | SysExit int | Raise error

subsection \<open>The file system\<close>

text \<open>
  A zip archive is the list of its members: name, recorded permission bits, data.
  Member names are plain file names, as in the release archives.
\<close>

datatype content = Raw string | ZipArchive "(string \<times> nat \<times> string) list"

datatype node = File nat content | Symlink string | Dir bool

text \<open>
  The entries, each under its real path (\<^verbatim>\<open>/home/u/.tvm/tmp\<close>; the root directory is
  \<^verbatim>\<open>/\<close>). A new entry is added at the end of the list.
\<close>

type_synonym filesystem = "(string \<times> node) list"

text \<open>
  Path resolution, as the kernel and \<^verbatim>\<open>os.path.realpath\<close> do it: from the root, one
  component after the other. \<open>cur\<close> is the real path reached so far (empty at the root).
  An empty component and \<^verbatim>\<open>.\<close> stay there, \<^verbatim>\<open>..\<close> goes to the parent, and a symbolic link
  is replaced by its target, which is resolved from the root when it starts with a slash and
  from the directory of the link otherwise. \<open>final\<close> says whether a link in the last
  component is followed (\<^verbatim>\<open>stat\<close>) or is itself the result (\<^verbatim>\<open>lstat\<close>). The kernel gives
  up (ELOOP) after \<open>n\<close> links.
\<close>

definition parent_dir :: "string \<Rightarrow> string" where
  "parent_dir cur = rev (drop 1 (dropWhile (\<lambda>c. c \<noteq> CHR ''/'') (rev cur)))"

fun walk :: "nat \<Rightarrow> filesystem \<Rightarrow> bool \<Rightarrow> string \<Rightarrow> string list \<Rightarrow> string option" where
  "walk n fs final cur [] = Some (if cur = [] then ''/'' else cur)"
| "walk n fs final cur (name # rest) =
     (if name = [] \<or> name = ''.'' then walk n fs final cur rest
      else if name = ''..'' then walk n fs final (parent_dir cur) rest
      else
        (case map_of fs (cur @ ''/'' @ name) of
           Some (Symlink t) \<Rightarrow>
             (if rest = [] \<and> \<not> final then Some (cur @ ''/'' @ name)
              else case n of
                     0 \<Rightarrow> None
                   | Suc m \<Rightarrow>
                       walk m fs final (if prefix ''/'' t then [] else cur) (split_slash t @ rest))
         | _ \<Rightarrow> walk n fs final (cur @ ''/'' @ name) rest))"

definition MAXSYMLINKS :: nat where
  "MAXSYMLINKS = 40"

text \<open>The real path of what \<open>p\<close> names, links followed to the end; and of the entry \<open>p\<close> itself.\<close>

definition resolve :: "filesystem \<Rightarrow> string \<Rightarrow> string option" where
  "resolve fs p = walk MAXSYMLINKS fs True [] (split_slash p)"

definition locate :: "filesystem \<Rightarrow> string \<Rightarrow> string option" where
  "locate fs p = walk MAXSYMLINKS fs False [] (split_slash p)"

definition stat :: "filesystem \<Rightarrow> string \<Rightarrow> node option" where
  "stat fs p = (case resolve fs p of None \<Rightarrow> None | Some q \<Rightarrow> map_of fs q)"

definition lstat :: "filesystem \<Rightarrow> string \<Rightarrow> node option" where
  "lstat fs p = (case locate fs p of None \<Rightarrow> None | Some q \<Rightarrow> map_of fs q)"

definition os_path_isfile :: "filesystem \<Rightarrow> string \<Rightarrow> bool" where
  "os_path_isfile fs p = (case stat fs p of Some (File m c) \<Rightarrow> True | _ \<Rightarrow> False)"

definition os_path_isdir :: "filesystem \<Rightarrow> string \<Rightarrow> bool" where
  "os_path_isdir fs p = (case stat fs p of Some (Dir w) \<Rightarrow> True | _ \<Rightarrow> False)"

definition os_path_islink :: "filesystem \<Rightarrow> string \<Rightarrow> bool" where
  "os_path_islink fs p = (case lstat fs p of Some (Symlink t) \<Rightarrow> True | _ \<Rightarrow> False)"

definition os_path_exists :: "filesystem \<Rightarrow> string \<Rightarrow> bool" where
  "os_path_exists fs p = (stat fs p \<noteq> None)"

definition os_path_lexists :: "filesystem \<Rightarrow> string \<Rightarrow> bool" where
  "os_path_lexists fs p = (lstat fs p \<noteq> None)"

text \<open>
  \<^verbatim>\<open>os.path.realpath\<close>. The program calls it only on a path for which
  \<^verbatim>\<open>os.path.isfile\<close> holds, where the links resolve within the kernel's bound.
\<close>

definition os_path_realpath :: "filesystem \<Rightarrow> string \<Rightarrow> string" where
  "os_path_realpath fs p = (case resolve fs p of Some q \<Rightarrow> q | None \<Rightarrow> p)"

definition ELOOP :: error where
  "ELOOP = OSError ''Too many levels of symbolic links''"

text \<open>Adding or removing the entry at the real path \<open>q\<close> needs its directory, writable.\<close>

definition parent_check :: "filesystem \<Rightarrow> string \<Rightarrow> error option" where
  "parent_check fs q =
     (case map_of fs (dirname q) of
        None \<Rightarrow> Some FileNotFoundError
      | Some (Dir w) \<Rightarrow> (if w then None else Some PermissionError)
      | Some _ \<Rightarrow> Some NotADirectoryError)"

text \<open>The names in the directory at the real path \<open>d\<close>: the entries one component below it.\<close>

definition child :: "string \<Rightarrow> string \<Rightarrow> string" where
  "child d name = (if d = ''/'' then d @ name else d @ ''/'' @ name)"

definition entry_name :: "string \<Rightarrow> string \<Rightarrow> string option" where
  "entry_name d p =
     (let name = drop (length (child d [])) p
      in if prefix (child d []) p \<and> name \<noteq> [] \<and> CHR ''/'' \<notin> set name
         then Some name else None)"

definition names_in :: "filesystem \<Rightarrow> string \<Rightarrow> string list" where
  "names_in fs d = List.map_filter (\<lambda>(p, n). entry_name d p) fs"

definition os_remove :: "filesystem \<Rightarrow> string \<Rightarrow> error + filesystem" where
  "os_remove fs p =
     (case locate fs p of
        None \<Rightarrow> Inl ELOOP
      | Some q \<Rightarrow>
          (case map_of fs q of
             None \<Rightarrow> Inl FileNotFoundError
           | Some (Dir w) \<Rightarrow> Inl IsADirectoryError
           | Some _ \<Rightarrow>
               (case parent_check fs q of
                  Some e \<Rightarrow> Inl e
                | None \<Rightarrow> Inr (AList.delete q fs))))"

definition os_rmdir :: "filesystem \<Rightarrow> string \<Rightarrow> error + filesystem" where
  "os_rmdir fs p =
     (case locate fs p of
        None \<Rightarrow> Inl ELOOP
      | Some q \<Rightarrow>
          (case map_of fs q of
             None \<Rightarrow> Inl FileNotFoundError
           | Some (Dir w) \<Rightarrow>
               (if names_in fs q \<noteq> [] then Inl (OSError ''Directory not empty'')
                else case parent_check fs q of
                       Some e \<Rightarrow> Inl e
                     | None \<Rightarrow> Inr (AList.delete q fs))
           | Some _ \<Rightarrow> Inl NotADirectoryError))"

definition os_mkdir :: "filesystem \<Rightarrow> string \<Rightarrow> error + filesystem" where
  "os_mkdir fs p =
     (case locate fs p of
        None \<Rightarrow> Inl ELOOP
      | Some q \<Rightarrow>
          if map_of fs q \<noteq> None then Inl FileExistsError
          else case parent_check fs q of
                 Some e \<Rightarrow> Inl e
               | None \<Rightarrow> Inr (fs @ [(q, Dir True)]))"

definition os_symlink :: "filesystem \<Rightarrow> string \<Rightarrow> string \<Rightarrow> error + filesystem" where
  "os_symlink fs src dst =
     (case locate fs dst of
        None \<Rightarrow> Inl ELOOP
      | Some q \<Rightarrow>
          if map_of fs q \<noteq> None then Inl FileExistsError
          else case parent_check fs q of
                 Some e \<Rightarrow> Inl e
               | None \<Rightarrow> Inr (fs @ [(q, Symlink src)]))"

text \<open>The owner's write bit, \<^verbatim>\<open>0o200\<close>, of a permission mode.\<close>

definition owner_writable :: "nat \<Rightarrow> bool" where
  "owner_writable m = ((m div 128) mod 2 = 1)"

definition os_chmod :: "filesystem \<Rightarrow> string \<Rightarrow> nat \<Rightarrow> error + filesystem" where
  "os_chmod fs p m =
     (case resolve fs p of
        None \<Rightarrow> Inl ELOOP
      | Some q \<Rightarrow>
          (case map_of fs q of
             None \<Rightarrow> Inl FileNotFoundError
           | Some (File m' c) \<Rightarrow> Inr (AList.update q (File m c) fs)
           | Some (Dir w) \<Rightarrow> Inr (AList.update q (Dir (owner_writable m)) fs)
           | Some (Symlink t) \<Rightarrow> Inl ELOOP))"

text \<open>
  \<^verbatim>\<open>open(p, "wb")\<close> followed by \<^verbatim>\<open>write\<close>: links are followed, an existing file is
  truncated and keeps its mode, a new file gets mode \<open>m\<close> (\<^verbatim>\<open>0o666\<close> less the umask).
\<close>

definition write_file :: "nat \<Rightarrow> filesystem \<Rightarrow> string \<Rightarrow> content \<Rightarrow> error + filesystem" where
  "write_file m fs p c =
     (case resolve fs p of
        None \<Rightarrow> Inl ELOOP
      | Some q \<Rightarrow>
          (case map_of fs q of
             None \<Rightarrow>
               (case parent_check fs q of
                  Some e \<Rightarrow> Inl e
                | None \<Rightarrow> Inr (fs @ [(q, File m c)]))
           | Some (File m' c') \<Rightarrow>
               (if owner_writable m' then Inr (AList.update q (File m' c) fs)
                else Inl PermissionError)
           | Some (Dir w) \<Rightarrow> Inl IsADirectoryError
           | Some (Symlink t) \<Rightarrow> Inl ELOOP))"

text \<open>
  \<^verbatim>\<open>os.rename\<close>: the entry moves to the new path and replaces a file or link there;
  a directory moves with everything below it, and replaces only an empty directory.
\<close>

definition rekey :: "string \<Rightarrow> string \<Rightarrow> string \<Rightarrow> string" where
  "rekey src dst p =
     (if p = src then dst
      else if prefix (src @ ''/'') p then dst @ drop (length src) p
      else p)"

definition rename_entry :: "filesystem \<Rightarrow> string \<Rightarrow> string \<Rightarrow> error + filesystem" where
  "rename_entry fs src dst =
     (case map_of fs src of
        None \<Rightarrow> Inl FileNotFoundError
      | Some n \<Rightarrow>
          (case parent_check fs src of
             Some e \<Rightarrow> Inl e
           | None \<Rightarrow>
               (case parent_check fs dst of
                  Some e \<Rightarrow> Inl e
                | None \<Rightarrow>
                    if src = dst then Inr fs
                    else (case n of
                      Dir w \<Rightarrow>
                        (if prefix (src @ ''/'') dst then Inl (OSError ''Invalid argument'')
                         else if \<not> w \<and> dirname src \<noteq> dirname dst then Inl PermissionError
                         else case map_of fs dst of
                           None \<Rightarrow> Inr (map (\<lambda>(p, x). (rekey src dst p, x)) fs)
                         | Some (Dir w') \<Rightarrow>
                             (if names_in fs dst \<noteq> [] then Inl (OSError ''Directory not empty'')
                              else Inr (map (\<lambda>(p, x). (rekey src dst p, x)) (AList.delete dst fs)))
                         | Some _ \<Rightarrow> Inl NotADirectoryError)
                    | _ \<Rightarrow>
                        (case map_of fs dst of
                           Some (Dir w') \<Rightarrow> Inl IsADirectoryError
                         | _ \<Rightarrow> Inr (AList.update dst n (AList.delete src fs)))))))"

definition os_rename :: "filesystem \<Rightarrow> string \<Rightarrow> string \<Rightarrow> error + filesystem" where
  "os_rename fs src dst =
     (case locate fs src of
        None \<Rightarrow> Inl ELOOP
      | Some s \<Rightarrow>
          (case locate fs dst of
             None \<Rightarrow> Inl ELOOP
           | Some d \<Rightarrow> rename_entry fs s d))"

text \<open>An operation that may stop half way returns the error and the file system it left.\<close>

fun attempt :: "filesystem \<Rightarrow> error + filesystem \<Rightarrow> error option \<times> filesystem" where
  "attempt fs (Inl e) = (Some e, fs)"
| "attempt fs (Inr fs') = (None, fs')"

definition samefile :: "filesystem \<Rightarrow> string \<Rightarrow> string \<Rightarrow> bool" where
  "samefile fs a b = (stat fs a \<noteq> None \<and> resolve fs a = resolve fs b)"

text \<open>
  \<^verbatim>\<open>shutil.move(src, dst)\<close>: into \<open>dst\<close> when that is a directory, else onto it, by
  \<^verbatim>\<open>os.rename\<close>. When the rename raises \<^verbatim>\<open>OSError\<close> the library copies instead: a link
  is recreated, a regular file is copied with its mode (\<^verbatim>\<open>copy2\<close>), and the source is
  unlinked. The copy of a whole directory tree is not modelled: there the error of the
  rename is raised.
\<close>

definition move_fallback ::
  "nat \<Rightarrow> filesystem \<Rightarrow> string \<Rightarrow> string \<Rightarrow> error \<Rightarrow> error option \<times> filesystem" where
  "move_fallback m fs src real_dst e =
     (case lstat fs src of
        Some (Symlink t) \<Rightarrow>
          (case os_symlink fs t real_dst of
             Inl e' \<Rightarrow> (Some e', fs)
           | Inr fs1 \<Rightarrow> attempt fs1 (os_remove fs1 src))
      | Some (Dir w) \<Rightarrow> (Some e, fs)
      | Some (File sm c) \<Rightarrow>
          (if samefile fs src real_dst then (Some ShutilError, fs)
           else case write_file m fs real_dst c of
             Inl e' \<Rightarrow> (Some e', fs)
           | Inr fs1 \<Rightarrow>
               (case os_chmod fs1 real_dst sm of
                  Inl e' \<Rightarrow> (Some e', fs1)
                | Inr fs2 \<Rightarrow> attempt fs2 (os_remove fs2 src)))
      | None \<Rightarrow> (Some FileNotFoundError, fs))"

definition move_to ::
  "nat \<Rightarrow> filesystem \<Rightarrow> string \<Rightarrow> string \<Rightarrow> error option \<times> filesystem" where
  "move_to m fs src real_dst =
     (case os_rename fs src real_dst of
        Inr fs' \<Rightarrow> (None, fs')
      | Inl e \<Rightarrow> move_fallback m fs src real_dst e)"

definition shutil_move ::
  "nat \<Rightarrow> filesystem \<Rightarrow> string \<Rightarrow> string \<Rightarrow> error option \<times> filesystem" where
  "shutil_move m fs src dst =
     (if os_path_isdir fs dst then
        (if samefile fs src dst then attempt fs (os_rename fs src dst)
         else let real_dst = path_join dst (basename (rstrip_slash src))
              in if os_path_exists fs real_dst then (Some ShutilError, fs)
                 else move_to m fs src real_dst)
      else move_to m fs src dst)"

text \<open>
  \<^verbatim>\<open>shutil.rmtree\<close>, on the directory at the real path \<open>d\<close>: a directory goes after its
  contents, a link is unlinked and not followed, and the first error is raised with what
  was deleted so far gone. The entries are taken in the order of the list. The depth of the
  walk is bounded (by the number of entries, which no nesting exceeds).
\<close>

fun rmtree_walk :: "nat \<Rightarrow> string \<Rightarrow> filesystem \<Rightarrow> error option \<times> filesystem" where
  "rmtree_walk 0 d fs = (Some RecursionError, fs)"
| "rmtree_walk (Suc k) d fs =
     (case fold
        (\<lambda>name (err, fs').
           case err of
             Some e \<Rightarrow> (Some e, fs')
           | None \<Rightarrow>
               (case map_of fs' (child d name) of
                  Some (Dir w) \<Rightarrow> rmtree_walk k (child d name) fs'
                | Some _ \<Rightarrow>
                    (case parent_check fs' (child d name) of
                       Some e \<Rightarrow> (Some e, fs')
                     | None \<Rightarrow> (None, AList.delete (child d name) fs'))
                | None \<Rightarrow> (Some FileNotFoundError, fs')))
        (names_in fs d) (None, fs)
      of
        (Some e, fs') \<Rightarrow> (Some e, fs')
      | (None, fs') \<Rightarrow>
          (if names_in fs' d \<noteq> [] then (Some (OSError ''Directory not empty''), fs')
           else case parent_check fs' d of
                  Some e \<Rightarrow> (Some e, fs')
                | None \<Rightarrow> (None, AList.delete d fs')))"

text \<open>
  The library refuses a symbolic link to a directory, with an \<^verbatim>\<open>OSError\<close> that has no
  \<^verbatim>\<open>strerror\<close> (it prints as \<^verbatim>\<open>None\<close>).
\<close>

definition shutil_rmtree :: "filesystem \<Rightarrow> string \<Rightarrow> error option \<times> filesystem" where
  "shutil_rmtree fs p =
     (case locate fs p of
        None \<Rightarrow> (Some ELOOP, fs)
      | Some d \<Rightarrow>
          (case map_of fs d of
             None \<Rightarrow> (Some FileNotFoundError, fs)
           | Some (Symlink t) \<Rightarrow> (Some (OSError ''None''), fs)
           | Some (File m c) \<Rightarrow> (Some NotADirectoryError, fs)
           | Some (Dir w) \<Rightarrow> rmtree_walk (length fs) d fs))"

text \<open>
  \<^verbatim>\<open>fnmatch\<close>: the pattern is translated (\<^verbatim>\<open>*\<close>, \<^verbatim>\<open>?\<close>, a bracket with its closing
  bracket; anything else stands for itself) and the whole name has to match. In a bracket a
  leading \<^verbatim>\<open>!\<close> negates, a \<^verbatim>\<open>]\<close> right after the opening stands for itself, and
  \<^verbatim>\<open>x-y\<close> is the range from \<open>x\<close> to \<open>y\<close> (empty when \<open>y\<close> is below \<open>x\<close>).
\<close>

datatype glob_token = Star | AnyChar | OneOf bool "(char \<times> char) list" | Literal char

fun char_class :: "string \<Rightarrow> (char \<times> char) list" where
  "char_class (x # y # z # s) =
     (if y = CHR ''-'' then (x, z) # char_class s else (x, x) # char_class (y # z # s))"
| "char_class (x # s) = (x, x) # char_class s"
| "char_class [] = []"

definition bracket :: "string \<Rightarrow> (bool \<times> string \<times> string) option" where
  "bracket pat =
     (let negated = prefix ''!'' pat;
          body = (if negated then tl pat else pat);
          first = (if prefix '']'' body then '']'' else []);
          stuff = takeWhile (\<lambda>c. c \<noteq> CHR '']'') (drop (length first) body);
          after = dropWhile (\<lambda>c. c \<noteq> CHR '']'') (drop (length first) body)
      in if after = [] then None else Some (negated, first @ stuff, tl after))"

function translate :: "string \<Rightarrow> glob_token list" where
  "translate [] = []"
| "translate (c # pat) =
     (if c = CHR ''*'' then Star # translate pat
      else if c = CHR ''?'' then AnyChar # translate pat
      else if c = CHR ''['' then
        (case bracket pat of
           None \<Rightarrow> Literal c # translate pat
         | Some (negated, stuff, rest) \<Rightarrow> OneOf negated (char_class stuff) # translate rest)
      else Literal c # translate pat)"
  by pat_completeness auto

termination
proof (relation "measure length")
  fix c :: char and pat :: string and x2 :: "bool \<times> string \<times> string"
    and negated :: bool and y :: "string \<times> string" and stuff rest :: string
  assume "bracket pat = Some x2" and "(negated, y) = x2" and "(stuff, rest) = y"
  then have b: "bracket pat = Some (negated, stuff, rest)" by simp
  let ?body = "if prefix ''!'' pat then tl pat else pat"
  let ?first = "if prefix '']'' ?body then '']'' else []"
  have "rest = tl (dropWhile (\<lambda>c. c \<noteq> CHR '']'') (drop (length ?first) ?body))"
    using b by (simp add: bracket_def Let_def split: if_splits)
  moreover have "length (dropWhile (\<lambda>c. c \<noteq> CHR '']'') (drop (length ?first) ?body))
                 \<le> length (drop (length ?first) ?body)"
    by (rule length_dropWhile_le)
  moreover have "length (drop (length ?first) ?body) \<le> length pat" by simp
  ultimately have "length rest \<le> length pat" by simp
  then show "(rest, c # pat) \<in> measure length" by simp
qed simp_all

definition in_class :: "(char \<times> char) list \<Rightarrow> char \<Rightarrow> bool" where
  "in_class ranges c = list_ex (\<lambda>(lo, hi). lo \<le> c \<and> c \<le> hi) ranges"

fun matches :: "glob_token list \<Rightarrow> string \<Rightarrow> bool" where
  "matches [] s = (s = [])"
| "matches (Star # ts) [] = matches ts []"
| "matches (Star # ts) (c # s) = (matches ts (c # s) \<or> matches (Star # ts) s)"
| "matches (AnyChar # ts) [] = False"
| "matches (AnyChar # ts) (c # s) = matches ts s"
| "matches (OneOf negated ranges # ts) [] = False"
| "matches (OneOf negated ranges # ts) (c # s) =
     ((in_class ranges c \<noteq> negated) \<and> matches ts s)"
| "matches (Literal x # ts) [] = False"
| "matches (Literal x # ts) (c # s) = (x = c \<and> matches ts s)"

definition fnmatch :: "string \<Rightarrow> string \<Rightarrow> bool" where
  "fnmatch name pat = matches (translate pat) name"

text \<open>
  \<^verbatim>\<open>glob.glob\<close>. A pattern without \<^verbatim>\<open>*\<close>, \<^verbatim>\<open>?\<close> or \<^verbatim>\<open>[\<close> names itself if it exists.
  Otherwise the directory part is expanded first when it holds such a character (to the
  directories that match), and in each directory the names are matched against the last
  component; a name with a leading dot is listed only for a pattern with a leading dot.
  A directory that cannot be read lists nothing.
\<close>

definition has_magic :: "string \<Rightarrow> bool" where
  "has_magic s = list_ex (\<lambda>c. c \<in> set ''*?['') s"

definition ishidden :: "string \<Rightarrow> bool" where
  "ishidden s = prefix ''.'' s"

definition glob_listdir :: "filesystem \<Rightarrow> string \<Rightarrow> bool \<Rightarrow> string list" where
  "glob_listdir fs d dironly =
     (case resolve fs d of
        None \<Rightarrow> []
      | Some q \<Rightarrow>
          (case map_of fs q of
             Some (Dir w) \<Rightarrow>
               filter (\<lambda>name. \<not> dironly \<or> os_path_isdir fs (path_join d name)) (names_in fs q)
           | _ \<Rightarrow> []))"

definition glob1 :: "filesystem \<Rightarrow> string \<Rightarrow> string \<Rightarrow> bool \<Rightarrow> string list" where
  "glob1 fs d pat dironly =
     (let names = glob_listdir fs d dironly;
          names = (if \<not> ishidden pat then filter (\<lambda>x. \<not> ishidden x) names else names)
      in filter (\<lambda>name. fnmatch name pat) names)"

definition glob0 :: "filesystem \<Rightarrow> string \<Rightarrow> string \<Rightarrow> string list" where
  "glob0 fs d base =
     (if base \<noteq> [] then (if os_path_lexists fs (path_join d base) then [base] else [])
      else if os_path_isdir fs d then [base] else [])"

function iglob :: "filesystem \<Rightarrow> string \<Rightarrow> bool \<Rightarrow> string list" where
  "iglob fs pathname dironly =
     (if \<not> has_magic pathname then
        (if basename pathname \<noteq> [] then
           (if os_path_lexists fs pathname then [pathname] else [])
         else if os_path_isdir fs (dirname pathname) then [pathname] else [])
      else if dirname pathname = [] then glob1 fs [] (basename pathname) dironly
      else
        concat (map
          (\<lambda>dir. map (path_join dir)
             (if has_magic (basename pathname) then glob1 fs dir (basename pathname) dironly
              else glob0 fs dir (basename pathname)))
          (if dirname pathname \<noteq> pathname \<and> has_magic (dirname pathname)
           then iglob fs (dirname pathname) True else [dirname pathname])))"
  by pat_completeness auto

termination
proof (relation "measure (\<lambda>(fs, pathname, dironly). length pathname)")
  fix fs :: filesystem and pathname :: string and dironly :: bool
  assume ne: "dirname pathname \<noteq> pathname \<and> has_magic (dirname pathname)"
  let ?head = "rev (dropWhile (\<lambda>c. c \<noteq> CHR ''/'') (rev pathname))"
  have h: "prefix ?head pathname"
    by (metis rev_rev_ident suffix_dropWhile suffix_to_prefix)
  have r: "prefix (rstrip_slash ?head) ?head"
    unfolding rstrip_slash_def by (metis rev_rev_ident suffix_dropWhile suffix_to_prefix)
  have "prefix (dirname pathname) pathname"
    using h r by (auto simp: dirname_def Let_def intro: prefix_order.order_trans)
  then have "length (dirname pathname) < length pathname"
    using ne by (metis prefix_length_le le_neq_implies_less prefix_length_prefix prefix_order.eq_iff prefix_order.order_refl)
  then show "((fs, dirname pathname, True), fs, pathname, dironly)
             \<in> measure (\<lambda>(fs, pathname, dironly). length pathname)"
    by simp
qed simp

text \<open>\<^verbatim>\<open>glob.glob(f"{d}/{pre}*")\<close>\<close>

definition glob_glob :: "filesystem \<Rightarrow> string \<Rightarrow> string \<Rightarrow> string list" where
  "glob_glob fs d pre = iglob fs (d @ ''/'' @ pre @ ''*'') False"

text \<open>\<^verbatim>\<open>ZipFile(zip_file, "r")\<close>: the members of the archive stored at the path.\<close>

definition zip_open :: "filesystem \<Rightarrow> string \<Rightarrow> error + (string \<times> nat \<times> string) list" where
  "zip_open fs p =
     (case stat fs p of
        None \<Rightarrow> Inl FileNotFoundError
      | Some (File m (ZipArchive members)) \<Rightarrow> Inr members
      | Some (File m (Raw s)) \<Rightarrow> Inl BadZipFile
      | Some _ \<Rightarrow> Inl IsADirectoryError)"

text \<open>
  \<^verbatim>\<open>extractall(d)\<close>: every member is written under \<open>d\<close> as a new file; the mode the
  archive records for it is not applied.
\<close>

fun extractall ::
  "nat \<Rightarrow> string \<Rightarrow> (string \<times> nat \<times> string) list \<Rightarrow> filesystem \<Rightarrow> error option \<times> filesystem" where
  "extractall m d [] fs = (None, fs)"
| "extractall m d ((name, recorded_mode, data) # members) fs =
     (case write_file m fs (path_join d name) (Raw data) of
        Inl e \<Rightarrow> (Some e, fs)
      | Inr fs' \<Rightarrow> extractall m d members fs')"

subsection \<open>The world outside the program\<close>

text \<open>
  What a run can change: the file system, the lines the operator has yet to type, what was
  printed (one string for each \<^verbatim>\<open>print\<close> and each prompt), and the URLs requested.
\<close>

record world =
  disk :: filesystem
  stdin :: "string list"
  stdout :: "string list"
  fetched :: "string list"

datatype http_result = Response int content | RequestFailed

text \<open>
  What a run only reads: the home directory, \<^verbatim>\<open>platform.system()\<close>,
  \<^verbatim>\<open>platform.machine()\<close>, \<^verbatim>\<open>os.environ\<close> at \<^verbatim>\<open>PATH\<close>, the release server, and the
  mode a new file gets.
\<close>

record host =
  HOME :: string
  platform_system :: string
  platform_machine :: string
  environ_PATH :: "string option"
  requests_get :: "string \<Rightarrow> http_result"
  new_file_mode :: nat

text \<open>\<^verbatim>\<open>TVM_PATH = os.path.expanduser("~/.tvm")\<close>\<close>

definition TVM_PATH :: "host \<Rightarrow> string" where
  "TVM_PATH H = rstrip_slash (HOME H) @ ''/.tvm''"

definition print :: "string \<Rightarrow> world \<Rightarrow> world" where
  "print s w = w\<lparr>stdout := stdout w @ [s]\<rparr>"

definition input :: "string \<Rightarrow> world \<Rightarrow> string result \<times> world" where
  "input prompt w =
     (case stdin w of
        [] \<Rightarrow> (Raise EOFError, print prompt w)
      | line # rest \<Rightarrow> (Ok line, (print prompt w)\<lparr>stdin := rest\<rparr>))"

text \<open>Sequencing: an exit or an exception ends the run with the world as it is.\<close>

definition and_then ::
  "'a result \<times> world \<Rightarrow> ('a \<Rightarrow> world \<Rightarrow> 'b result \<times> world) \<Rightarrow> 'b result \<times> world" where
  "and_then m f =
     (case m of
        (Ok x, w) \<Rightarrow> f x w
      | (SysExit c, w) \<Rightarrow> (SysExit c, w)
      | (Raise e, w) \<Rightarrow> (Raise e, w))"

definition fs_do :: "(filesystem \<Rightarrow> error + filesystem) \<Rightarrow> world \<Rightarrow> unit result \<times> world" where
  "fs_do f w =
     (case f (disk w) of
        Inl e \<Rightarrow> (Raise e, w)
      | Inr fs' \<Rightarrow> (Ok (), w\<lparr>disk := fs'\<rparr>))"

definition fs_try ::
  "(filesystem \<Rightarrow> error option \<times> filesystem) \<Rightarrow> world \<Rightarrow> unit result \<times> world" where
  "fs_try f w =
     (case f (disk w) of
        (Some e, fs') \<Rightarrow> (Raise e, w\<lparr>disk := fs'\<rparr>)
      | (None, fs') \<Rightarrow> (Ok (), w\<lparr>disk := fs'\<rparr>))"

text \<open>\<^verbatim>\<open>try: ... except OSError as err: handler\<close>\<close>

definition except_OSError ::
  "unit result \<times> world \<Rightarrow> (error \<Rightarrow> world \<Rightarrow> unit result \<times> world) \<Rightarrow> unit result \<times> world" where
  "except_OSError m handler =
     (case m of
        (Raise err, w) \<Rightarrow> (if is_OSError err then handler err w else (Raise err, w))
      | r \<Rightarrow> r)"

subsection \<open>get_osinfo (lines 16 to 33)\<close>

definition get_osinfo :: "host \<Rightarrow> world \<Rightarrow> string result \<times> world" where
  "get_osinfo H w =
     (let user_os = platform_system H;
          user_arch = platform_machine H
      in if user_os \<in> set [''Darwin'', ''Linux''] then
           (let user_os = lower user_os;
                user_arch = (if user_arch \<in> set [''arm64'', ''aarch64'']
                             then ''arm64'' else ''amd64'')
            in (Ok (user_os @ ''_'' @ user_arch), w))
         else (SysExit 1, print (user_os @ '' is not supported. Quitting.'') w))"

subsection \<open>install_terraform (lines 36 to 93)\<close>

text \<open>
  The body of the loop over \<open>versions\<close>, in the five blocks the source separates by blank
  lines. Lines 48 to 54: the overwrite prompt.
\<close>

definition confirm_overwrite :: "string \<Rightarrow> string \<Rightarrow> world \<Rightarrow> unit result \<times> world" where
  "confirm_overwrite version file_dst w =
     (if os_path_isfile (disk w) file_dst then
        and_then
          (input (''Terraform v'' @ version
                  @ '' already exists. Do you want to download it again? [y/N]: '') w)
          (\<lambda>download_prompt w.
             if lower download_prompt \<notin> set [''y'', ''yes'']
             then (SysExit 0, print ''Quitting.'' w)
             else (Ok (), w))
      else (Ok (), w))"

text \<open>Lines 56 to 63: the scratch directory.\<close>

definition reset_temp_dir :: "string \<Rightarrow> world \<Rightarrow> unit result \<times> world" where
  "reset_temp_dir temp_dir w =
     (if \<not> os_path_isdir (disk w) temp_dir then
        fs_do (\<lambda>fs. os_mkdir fs temp_dir) w
      else
        except_OSError
          (and_then (fs_try (\<lambda>fs. shutil_rmtree fs temp_dir) w)
             (\<lambda>u. fs_do (\<lambda>fs. os_mkdir fs temp_dir)))
          (\<lambda>err w. (Ok (), print (''Error: '' @ temp_dir @ '' : '' @ strerror err) w)))"

text \<open>Lines 65 to 77: the request, the two fatal answers, the archive file.\<close>

definition download :: "host \<Rightarrow> string \<Rightarrow> string \<Rightarrow> world \<Rightarrow> unit result \<times> world" where
  "download H file_url zip_file w =
     (let w = print (''Downloading from '' @ file_url @ ''...'') w;
          w = w\<lparr>fetched := fetched w @ [file_url]\<rparr>
      in case requests_get H file_url of
           RequestFailed \<Rightarrow> (Raise RequestException, w)
         | Response status_code file_data \<Rightarrow>
             if status_code = 403 then
               (SysExit 1, print ''ERROR: Invalid Terraform version.'' w)
             else if status_code \<noteq> 200 then
               (SysExit 1,
                print (''ERROR: Request not successful. Response code: ''
                       @ str_int status_code) w)
             else fs_do (\<lambda>fs. write_file (new_file_mode H) fs zip_file file_data) w)"

text \<open>Lines 79 to 87: extraction, \<^verbatim>\<open>chmod 0o755\<close> (493), the move to the final name.\<close>

definition unpack ::
  "host \<Rightarrow> string \<Rightarrow> string \<Rightarrow> string \<Rightarrow> string \<Rightarrow> world \<Rightarrow> unit result \<times> world" where
  "unpack H temp_dir zip_file file_src file_dst w =
     (let w = print ''Decompressing zip file...'' w
      in case zip_open (disk w) zip_file of
           Inl e \<Rightarrow> (Raise e, w)
         | Inr members \<Rightarrow>
             and_then (fs_try (extractall (new_file_mode H) temp_dir members) w)
               (\<lambda>u w. and_then (fs_do (\<lambda>fs. os_chmod fs file_src 493) w)
                  (\<lambda>u w. fs_try (\<lambda>fs. shutil_move (new_file_mode H) fs file_src file_dst)
                            (print (''Moving the binary to '' @ TVM_PATH H) w))))"

text \<open>Lines 89 to 93: the scratch directory goes; an \<^verbatim>\<open>OSError\<close> there is only printed.\<close>

definition cleanup :: "string \<Rightarrow> world \<Rightarrow> unit result \<times> world" where
  "cleanup temp_dir w =
     except_OSError
       (fs_try (\<lambda>fs. shutil_rmtree fs temp_dir) (print ''Cleaning up temp directory...'' w))
       (\<lambda>err w. (Ok (), print (''Error: '' @ temp_dir @ '' : '' @ strerror err) w))"

definition install_body :: "host \<Rightarrow> string \<Rightarrow> string \<Rightarrow> world \<Rightarrow> unit result \<times> world" where
  "install_body H osinfo version w =
     (let temp_dir = TVM_PATH H @ ''/tmp'';
          file_url = ''https://releases.hashicorp.com/terraform/'' @ version
                     @ ''/terraform_'' @ version @ ''_'' @ osinfo @ ''.zip'';
          zip_file = temp_dir @ ''/terraform_'' @ version @ ''_'' @ osinfo @ ''.zip'';
          file_src = temp_dir @ ''/terraform'';
          file_dst = TVM_PATH H @ ''/terraform_'' @ version @ ''_'' @ osinfo
      in and_then (confirm_overwrite version file_dst w)
           (\<lambda>u w. and_then (reset_temp_dir temp_dir w)
              (\<lambda>u w. and_then (download H file_url zip_file w)
                 (\<lambda>u w. and_then (unpack H temp_dir zip_file file_src file_dst w)
                    (\<lambda>u w. cleanup temp_dir w)))))"

fun install_versions :: "host \<Rightarrow> string \<Rightarrow> string list \<Rightarrow> world \<Rightarrow> unit result \<times> world" where
  "install_versions H osinfo [] w = (Ok (), w)"
| "install_versions H osinfo (version # versions) w =
     and_then (install_body H osinfo version w) (\<lambda>u. install_versions H osinfo versions)"

definition install_terraform :: "host \<Rightarrow> string list \<Rightarrow> world \<Rightarrow> unit result \<times> world" where
  "install_terraform H versions w =
     and_then (get_osinfo H w) (\<lambda>osinfo. install_versions H osinfo versions)"

subsection \<open>use_terraform (lines 96 to 124)\<close>

text \<open>Lines 119 to 124: \<^verbatim>\<open>os.environ["PATH"]\<close> and the advice to extend it.\<close>

definition warn_path :: "host \<Rightarrow> world \<Rightarrow> unit result \<times> world" where
  "warn_path H w =
     (case environ_PATH H of
        None \<Rightarrow> (Raise KeyError, w)
      | Some user_path \<Rightarrow>
          if \<not> sublist (TVM_PATH H) user_path then
            (Ok (),
             print (CHR 0x09 # ''export PATH='' @ [CHR 0x22] @ TVM_PATH H @ '':$PATH'' @ [CHR 0x22])
               (print ''Please add tvm directory to the path to use Terraform binaries:''
                  (print (CHR 0x0A # ''Warning: tvm directory is not in PATH.'') w)))
          else (Ok (), w))"

definition use_terraform :: "host \<Rightarrow> string \<Rightarrow> world \<Rightarrow> unit result \<times> world" where
  "use_terraform H version w =
     and_then (get_osinfo H w)
       (\<lambda>osinfo w.
          let terraform_src = TVM_PATH H @ ''/terraform_'' @ version @ ''_'' @ osinfo;
              terraform_dst = TVM_PATH H @ ''/terraform''
          in and_then
               (if \<not> os_path_isfile (disk w) terraform_src then
                  and_then
                    (input (''Terraform v'' @ version
                            @ '' cannot be found locally. Do you want to download? [Y/n]: '') w)
                    (\<lambda>download_prompt w.
                       if lower download_prompt \<in> set [''n'', ''no'']
                       then (SysExit 0, print ''Quitting.'' w)
                       else install_terraform H [version] w)
                else (Ok (), w))
               (\<lambda>u w. and_then
                  (if os_path_isfile (disk w) terraform_dst then
                     fs_do (\<lambda>fs. os_remove fs terraform_dst)
                       (print ''Removing existing symbolic link...'' w)
                   else (Ok (), w))
                  (\<lambda>u w. and_then
                     (fs_do (\<lambda>fs. os_symlink fs terraform_src terraform_dst)
                        (print (''Creating a symbolic link for '' @ terraform_src
                                @ '' to '' @ terraform_dst) w))
                     (\<lambda>u w. warn_path H w))))"

subsection \<open>remove_unused (lines 127 to 140)\<close>

text \<open>
  \<open>symlinked_file\<close> is bound only when the test of line 133 holds; reading it unbound
  raises \<^verbatim>\<open>UnboundLocalError\<close>.
\<close>

fun remove_items :: "string option \<Rightarrow> string list \<Rightarrow> world \<Rightarrow> unit result \<times> world" where
  "remove_items symlinked_file [] w = (Ok (), w)"
| "remove_items symlinked_file (item # filelist) w =
     (case symlinked_file of
        None \<Rightarrow> (Raise UnboundLocalError, w)
      | Some target \<Rightarrow>
          if item = target then remove_items symlinked_file filelist w
          else and_then
                 (fs_do (\<lambda>fs. os_remove fs item) (print (''Removing: '' @ item) w))
                 (\<lambda>u. remove_items symlinked_file filelist))"

text \<open>Lines 133 and 134, and 159 and 160: the real target of a valid active link.\<close>

definition active_target :: "host \<Rightarrow> filesystem \<Rightarrow> string option" where
  "active_target H fs =
     (let active_tf_file = TVM_PATH H @ ''/terraform''
      in if os_path_isfile fs active_tf_file \<and> os_path_islink fs active_tf_file
         then Some (os_path_realpath fs active_tf_file) else None)"

definition remove_unused :: "host \<Rightarrow> world \<Rightarrow> unit result \<times> world" where
  "remove_unused H w =
     (let filelist = glob_glob (disk w) (TVM_PATH H) ''terraform_'';
          symlinked_file = active_target H (disk w)
      in remove_items symlinked_file filelist w)"

subsection \<open>list_versions (lines 153 to 175)\<close>

text \<open>\<^verbatim>\<open>list.index\<close>: the first position of the value, or \<^verbatim>\<open>ValueError\<close>.\<close>

fun list_index :: "'a list \<Rightarrow> 'a \<Rightarrow> nat option" where
  "list_index [] x = None"
| "list_index (y # ys) x =
     (if y = x then Some 0 else map_option Suc (list_index ys x))"

text \<open>
  The table of line 169. \<open>active_index\<close> is bound only when the test of line 159 holds,
  which is what \<^verbatim>\<open>"active_index" in dir()\<close> asks.
\<close>

definition version_table :: "host \<Rightarrow> filesystem \<Rightarrow> error + (string \<times> string) list" where
  "version_table H fs =
     (let filelist = rev (sort (glob_glob fs (TVM_PATH H) ''terraform_''));
          basename_list = map basename filelist;
          active_list = replicate (length basename_list) []
      in case active_target H fs of
           None \<Rightarrow> Inr (zip active_list basename_list)
         | Some target \<Rightarrow>
             (case list_index filelist target of
                None \<Rightarrow> Inl ValueError
              | Some active_index \<Rightarrow>
                  Inr (zip (active_list[active_index := ''  *'']) basename_list)))"

definition list_versions :: "host \<Rightarrow> world \<Rightarrow> unit result \<times> world" where
  "list_versions H w =
     (case version_table H (disk w) of
        Inl e \<Rightarrow> (Raise e, w)
      | Inr table \<Rightarrow>
          (Ok (),
           fold (\<lambda>(is_active, version). print (ljust 8 is_active @ '' '' @ ljust 10 version))
             table
             (print (ljust 8 ''ACTIVE'' @ '' '' @ ljust 15 ''VERSION'') w)))"

subsection \<open>Relations on file systems and paths, for the statements below\<close>







subsection \<open>Example hosts and worlds\<close>

text \<open>
  A release server that has versions 1.4.0 and 1.5.0 for \<open>linux_amd64\<close>, answers 403 for
  every other version of that platform and 500 elsewhere.
\<close>

definition example_server :: "string \<Rightarrow> http_result" where
  "example_server url =
     (if url = ''https://releases.hashicorp.com/terraform/1.5.0/terraform_1.5.0_linux_amd64.zip''
      then Response 200 (ZipArchive [(''terraform'', 420, ''ELF 1.5.0'')])
      else if url = ''https://releases.hashicorp.com/terraform/1.4.0/terraform_1.4.0_linux_amd64.zip''
      then Response 200 (ZipArchive [(''terraform'', 511, ''ELF 1.4.0''), (''LICENSE.txt'', 420, ''BUSL'')])
      else if suffix ''_linux_amd64.zip'' url then Response 403 (Raw ''Forbidden'')
      else Response 500 (Raw ''Internal Server Error''))"

definition example_host :: "string \<Rightarrow> string \<Rightarrow> host" where
  "example_host system machine =
     \<lparr>HOME = ''/home/u'', platform_system = system, platform_machine = machine,
      environ_PATH = Some ''/usr/bin:/home/u/.tvm'', requests_get = example_server,
      new_file_mode = 420\<rparr>"

text \<open>A fresh managed directory, and an operator who answers the given lines.\<close>

definition example_world :: "filesystem \<Rightarrow> string list \<Rightarrow> world" where
  "example_world entries answers =
     \<lparr>disk = (''/home/u/.tvm'', Dir True) # entries, stdin = answers, stdout = [], fetched = []\<rparr>"

text \<open>Two installed versions, and the same with version 1.5.0 active.\<close>

definition example_installed :: filesystem where
  "example_installed =
     [(''/home/u/.tvm/terraform_1.4.0_linux_amd64'', File 493 (Raw ''ELF 1.4.0'')),
      (''/home/u/.tvm/terraform_1.5.0_linux_amd64'', File 493 (Raw ''ELF 1.5.0''))]"

definition example_active :: filesystem where
  "example_active =
     example_installed
     @ [(''/home/u/.tvm/terraform'', Symlink ''/home/u/.tvm/terraform_1.5.0_linux_amd64'')]"

text \<open>
  An active link whose target is gone; a scratch directory left behind with a read-only
  directory in it; a scratch directory that is itself read-only.
\<close>

definition example_broken :: filesystem where
  "example_broken =
     example_installed
     @ [(''/home/u/.tvm/terraform'', Symlink ''/home/u/.tvm/terraform_1.3.0_linux_amd64'')]"



text \<open>
  The home directory \<^verbatim>\<open>/home/u\<close> is a symbolic link to \<^verbatim>\<open>/data/u\<close>, where the managed
  directory lies, with two versions installed and version 1.5.0 active (the link as
  \<open>use_terraform\<close> writes it).
\<close>

definition example_linked_home :: world where
  "example_linked_home =
     \<lparr>disk =
        [(''/home/u'', Symlink ''/data/u''),
         (''/data/u/.tvm'', Dir True),
         (''/data/u/.tvm/terraform_1.4.0_linux_amd64'', File 493 (Raw ''ELF 1.4.0'')),
         (''/data/u/.tvm/terraform_1.5.0_linux_amd64'', File 493 (Raw ''ELF 1.5.0'')),
         (''/data/u/.tvm/terraform'', Symlink ''/home/u/.tvm/terraform_1.5.0_linux_amd64'')],
      stdin = [], stdout = [], fetched = []\<rparr>"

section \<open>Properties\<close>

subsection \<open>Helper facts\<close>

lemma lower_Darwin: "lower ''Darwin'' = ''darwin''"
  by (simp add: lower_def lower_char_def)

lemma lower_Linux: "lower ''Linux'' = ''linux''"
  by (simp add: lower_def lower_char_def)

subsection \<open>The platform tag\<close>

text \<open>
  Claim C6. On \<open>Darwin\<close> and \<open>Linux\<close> \<open>get_osinfo\<close> returns the lower-case system name,
  an underscore and \<open>arm64\<close> (for the machines \<open>arm64\<close> and \<open>aarch64\<close>) or \<open>amd64\<close> (for
  every other machine), and changes nothing. On every other system it exits with code 1,
  and so do \<open>install_terraform\<close> and \<open>use_terraform\<close>, with no request made and the file
  system as it was.
\<close>

theorem platform_resolver:
  "(platform_system H = ''Darwin'' \<longrightarrow>
      get_osinfo H w =
        (Ok (''darwin_'' @ (if platform_machine H = ''arm64'' \<or> platform_machine H = ''aarch64''
                            then ''arm64'' else ''amd64'')), w))
   \<and> (platform_system H = ''Linux'' \<longrightarrow>
      get_osinfo H w =
        (Ok (''linux_'' @ (if platform_machine H = ''arm64'' \<or> platform_machine H = ''aarch64''
                           then ''arm64'' else ''amd64'')), w))
   \<and> (platform_system H \<noteq> ''Darwin'' \<and> platform_system H \<noteq> ''Linux'' \<longrightarrow>
      fst (get_osinfo H w) = SysExit 1
      \<and> fst (install_terraform H versions w) = SysExit 1
      \<and> fetched (snd (install_terraform H versions w)) = fetched w
      \<and> disk (snd (install_terraform H versions w)) = disk w
      \<and> fst (use_terraform H version w) = SysExit 1
      \<and> fetched (snd (use_terraform H version w)) = fetched w
      \<and> disk (snd (use_terraform H version w)) = disk w)"
  by (simp add: get_osinfo_def install_terraform_def use_terraform_def and_then_def
      print_def lower_Darwin lower_Linux)

theorem platform_resolver_witness:
  "get_osinfo (example_host ''Darwin'' ''arm64'') (example_world [] [])
     = (Ok ''darwin_arm64'', example_world [] [])
   \<and> get_osinfo (example_host ''Linux'' ''aarch64'') (example_world [] [])
     = (Ok ''linux_arm64'', example_world [] [])
   \<and> get_osinfo (example_host ''Linux'' ''x86_64'') (example_world [] [])
     = (Ok ''linux_amd64'', example_world [] [])
   \<and> fst (install_terraform (example_host ''Windows'' ''AMD64'') [''1.5.0''] (example_world [] []))
     = SysExit 1
   \<and> fetched (snd (install_terraform (example_host ''Windows'' ''AMD64'') [''1.5.0'']
        (example_world [] []))) = []
   \<and> fst (use_terraform (example_host ''Windows'' ''AMD64'') ''1.5.0'' (example_world [] []))
     = SysExit 1"
  using platform_resolver [of "example_host ''Darwin'' ''arm64''" "example_world [] []"]
    platform_resolver [of "example_host ''Linux'' ''aarch64''" "example_world [] []"]
    platform_resolver [of "example_host ''Linux'' ''x86_64''" "example_world [] []"]
    platform_resolver [of "example_host ''Windows'' ''AMD64''" "example_world [] []"
      "[''1.5.0'']" "''1.5.0''"]
  by (simp add: example_host_def example_world_def)

subsection \<open>Real paths\<close>



























lemma takeWhile_no_slash:
  assumes "CHR ''/'' \<notin> set n"
  shows "takeWhile (\<lambda>c. c \<noteq> CHR ''/'') (rev n @ CHR ''/'' # r) = rev n"
proof -
  have "\<And>x. x \<in> set (rev n) \<Longrightarrow> x \<noteq> CHR ''/''" using assms by auto
  then have "takeWhile (\<lambda>c. c \<noteq> CHR ''/'') (rev n @ CHR ''/'' # r)
             = rev n @ takeWhile (\<lambda>c. c \<noteq> CHR ''/'') (CHR ''/'' # r)"
    by (rule takeWhile_append2)
  then show ?thesis by simp
qed





subsection \<open>remove_unused and list_versions with the home directory behind a link\<close>

text \<open>
  Claim C1, where it fails. The home directory is a symbolic link, two versions are installed
  and 1.5.0 is active. \<^verbatim>\<open>glob\<close> lists the versions under the path the program built,
  \<^verbatim>\<open>os.path.realpath\<close> gives the real path of the active file, and no listed path equals
  it: line 137 skips nothing, and \<open>remove_unused\<close> removes both versions, the active one
  included. The link is left behind, dangling.
\<close>

theorem remove_unused_removes_active:
  "TVM_PATH (example_host ''Linux'' ''x86_64'') = ''/home/u/.tvm''
   \<and> os_path_isfile (disk example_linked_home) ''/home/u/.tvm/terraform''
   \<and> os_path_islink (disk example_linked_home) ''/home/u/.tvm/terraform''
   \<and> os_path_realpath (disk example_linked_home) ''/home/u/.tvm/terraform''
       = ''/data/u/.tvm/terraform_1.5.0_linux_amd64''
   \<and> sort (glob_glob (disk example_linked_home) ''/home/u/.tvm'' ''terraform_'')
       = [''/home/u/.tvm/terraform_1.4.0_linux_amd64'', ''/home/u/.tvm/terraform_1.5.0_linux_amd64'']
   \<and> os_path_realpath (disk example_linked_home) ''/home/u/.tvm/terraform_1.5.0_linux_amd64''
       = ''/data/u/.tvm/terraform_1.5.0_linux_amd64''
   \<and> fst (remove_unused (example_host ''Linux'' ''x86_64'') example_linked_home) = Ok ()
   \<and> \<not> os_path_exists
         (disk (snd (remove_unused (example_host ''Linux'' ''x86_64'') example_linked_home)))
         ''/home/u/.tvm/terraform_1.5.0_linux_amd64''
   \<and> \<not> os_path_exists
         (disk (snd (remove_unused (example_host ''Linux'' ''x86_64'') example_linked_home)))
         ''/home/u/.tvm/terraform_1.4.0_linux_amd64''
   \<and> os_path_islink
         (disk (snd (remove_unused (example_host ''Linux'' ''x86_64'') example_linked_home)))
         ''/home/u/.tvm/terraform''
   \<and> \<not> os_path_exists
         (disk (snd (remove_unused (example_host ''Linux'' ''x86_64'') example_linked_home)))
         ''/home/u/.tvm/terraform''"
  by code_simp

text \<open>
  Claim C9, where it fails. In the same world the active link is valid and resolves to a
  listed file, but under its real path, which \<open>filelist\<close> does not hold:
  \<^verbatim>\<open>filelist.index\<close> raises \<^verbatim>\<open>ValueError\<close> on line 160 and nothing is printed.
\<close>

theorem list_versions_raises:
  "os_path_isfile (disk example_linked_home) ''/home/u/.tvm/terraform''
   \<and> os_path_islink (disk example_linked_home) ''/home/u/.tvm/terraform''
   \<and> os_path_realpath (disk example_linked_home) ''/home/u/.tvm/terraform''
       = os_path_realpath (disk example_linked_home) ''/home/u/.tvm/terraform_1.5.0_linux_amd64''
   \<and> rev (sort (glob_glob (disk example_linked_home) ''/home/u/.tvm'' ''terraform_''))
       = [''/home/u/.tvm/terraform_1.5.0_linux_amd64'', ''/home/u/.tvm/terraform_1.4.0_linux_amd64'']
   \<and> list_versions (example_host ''Linux'' ''x86_64'') example_linked_home
       = (Raise ValueError, example_linked_home)"
  by code_simp

subsection \<open>remove_unused without a valid link\<close>



subsection \<open>install_terraform: the batch and its early exits\<close>

lemma and_then_Ok: "and_then (Ok x, w) f = f x w"
  by (simp add: and_then_def)

lemma and_then_SysExit: "and_then (SysExit c, w) f = (SysExit c, w)"
  by (simp add: and_then_def)

lemma and_then_Raise: "and_then (Raise e, w) f = (Raise e, w)"
  by (simp add: and_then_def)

lemma install_versions_append:
  "install_versions H t (pre @ vs) w
   = and_then (install_versions H t pre w) (\<lambda>u. install_versions H t vs)"
proof (induction pre arbitrary: w)
  case Nil
  then show ?case by (simp add: and_then_Ok)
next
  case (Cons v pre)
  obtain r w' where b: "install_body H t v w = (r, w')" by (cases "install_body H t v w")
  show ?case using Cons b by (cases r) (simp_all add: and_then_def)
qed

lemma get_osinfo_world: "fst (get_osinfo H w) = Ok t \<Longrightarrow> get_osinfo H w = (Ok t, w)"
  by (auto simp: get_osinfo_def Let_def split: if_splits)

lemma install_terraform_batch:
  assumes "fst (get_osinfo H w0) = Ok t"
    and "install_versions H t pre w0 = (Ok (), w)"
  shows "install_terraform H (pre @ v # rest) w0
         = and_then (install_body H t v w) (\<lambda>u. install_versions H t rest)"
  using get_osinfo_world [OF assms(1)] assms(2)
  by (simp add: install_terraform_def install_versions_append and_then_Ok)

text \<open>
  Claim C4. In a batch, let the versions before \<open>v\<close> be installed, the overwrite prompt for
  \<open>v\<close> pass and the scratch directory be prepared, and let the server answer the request
  for \<open>v\<close> with a status other than 200. Then \<open>install_terraform\<close> exits with code 1
  whatever versions follow \<open>v\<close>; the world is the one the scratch step left, with the
  request logged and two more lines printed, so no file was written; and the line for
  status 403 (\<open>Invalid Terraform version\<close>) differs from the line for any other status,
  which carries the status code.
\<close>

theorem fetch_failure_is_fatal:
  assumes "fst (get_osinfo H w0) = Ok t"
    and "install_versions H t pre w0 = (Ok (), w)"
    and "confirm_overwrite v (TVM_PATH H @ ''/terraform_'' @ v @ ''_'' @ t) w = (Ok (), w1)"
    and "reset_temp_dir (TVM_PATH H @ ''/tmp'') w1 = (Ok (), w2)"
    and "requests_get H (''https://releases.hashicorp.com/terraform/'' @ v
                         @ ''/terraform_'' @ v @ ''_'' @ t @ ''.zip'') = Response status body"
    and "status \<noteq> 200"
  shows "install_terraform H (pre @ v # rest) w0 =
          (SysExit 1,
           w2\<lparr>stdout := stdout w2 @
                 [''Downloading from https://releases.hashicorp.com/terraform/'' @ v
                    @ ''/terraform_'' @ v @ ''_'' @ t @ ''.zip...'',
                  if status = 403 then ''ERROR: Invalid Terraform version.''
                  else ''ERROR: Request not successful. Response code: '' @ str_int status],
               fetched := fetched w2 @
                 [''https://releases.hashicorp.com/terraform/'' @ v
                    @ ''/terraform_'' @ v @ ''_'' @ t @ ''.zip'']\<rparr>)
       \<and> ''ERROR: Invalid Terraform version.''
           \<noteq> ''ERROR: Request not successful. Response code: '' @ str_int status"
  using assms(3-6)
  by (simp add: install_terraform_batch [OF assms(1,2)] install_body_def Let_def and_then_def
      download_def print_def)

theorem fetch_failure_is_fatal_witness:
  "fst (install_terraform (example_host ''Linux'' ''x86_64'') [''1.5.0'', ''9.9.9'', ''1.4.0'']
          (example_world [] [])) = SysExit 1
   \<and> stdout (snd (install_terraform (example_host ''Linux'' ''x86_64'')
          [''1.5.0'', ''9.9.9'', ''1.4.0''] (example_world [] [])))
     = [''Downloading from https://releases.hashicorp.com/terraform/1.5.0/terraform_1.5.0_linux_amd64.zip...'',
        ''Decompressing zip file...'',
        ''Moving the binary to /home/u/.tvm'',
        ''Cleaning up temp directory...'',
        ''Downloading from https://releases.hashicorp.com/terraform/9.9.9/terraform_9.9.9_linux_amd64.zip...'',
        ''ERROR: Invalid Terraform version.'']
   \<and> disk (snd (install_terraform (example_host ''Linux'' ''x86_64'')
          [''1.5.0'', ''9.9.9'', ''1.4.0''] (example_world [] [])))
     = [(''/home/u/.tvm'', Dir True),
        (''/home/u/.tvm/terraform_1.5.0_linux_amd64'', File 493 (Raw ''ELF 1.5.0'')),
        (''/home/u/.tvm/tmp'', Dir True)]
   \<and> fst (install_terraform (example_host ''Darwin'' ''arm64'') [''1.5.0'', ''1.4.0'']
          (example_world [] [])) = SysExit 1
   \<and> stdout (snd (install_terraform (example_host ''Darwin'' ''arm64'') [''1.5.0'', ''1.4.0'']
          (example_world [] [])))
     = [''Downloading from https://releases.hashicorp.com/terraform/1.5.0/terraform_1.5.0_darwin_arm64.zip...'',
        ''ERROR: Request not successful. Response code: 500'']"
proof -
  let ?H = "example_host ''Linux'' ''x86_64''"
  let ?init = "example_world [] []"
  define w where "w = snd (install_versions ?H ''linux_amd64'' [''1.5.0''] ?init)"
  define reset where "reset = snd (reset_temp_dir ''/home/u/.tvm/tmp'' w)"
  have t: "TVM_PATH ?H = ''/home/u/.tvm''" by code_simp
  have a1: "fst (get_osinfo ?H ?init) = Ok ''linux_amd64''" by code_simp
  have "fst (install_versions ?H ''linux_amd64'' [''1.5.0''] ?init) = Ok ()" by code_simp
  then have a2: "install_versions ?H ''linux_amd64'' [''1.5.0''] ?init = (Ok (), w)"
    by (simp add: prod_eq_iff w_def)
  have "\<not> os_path_isfile (disk w) (TVM_PATH ?H @ ''/terraform_'' @ ''9.9.9'' @ ''_'' @ ''linux_amd64'')"
    unfolding w_def by code_simp
  then have a3: "confirm_overwrite ''9.9.9'' (TVM_PATH ?H @ ''/terraform_'' @ ''9.9.9'' @ ''_'' @ ''linux_amd64'') w
            = (Ok (), w)" by (simp add: confirm_overwrite_def)
  have "fst (reset_temp_dir (TVM_PATH ?H @ ''/tmp'') w) = Ok ()" unfolding w_def by code_simp
  then have a4: "reset_temp_dir (TVM_PATH ?H @ ''/tmp'') w = (Ok (), reset)"
    by (simp add: prod_eq_iff t reset_def)
  have a5: "requests_get ?H (''https://releases.hashicorp.com/terraform/'' @ ''9.9.9''
                         @ ''/terraform_'' @ ''9.9.9'' @ ''_'' @ ''linux_amd64'' @ ''.zip'')
            = Response 403 (Raw ''Forbidden'')" by code_simp
  have s2: "stdout reset = [''Downloading from https://releases.hashicorp.com/terraform/1.5.0/terraform_1.5.0_linux_amd64.zip...'',
        ''Decompressing zip file...'',
        ''Moving the binary to /home/u/.tvm'',
        ''Cleaning up temp directory...'']" unfolding reset_def w_def by code_simp
  have d2: "disk reset = [(''/home/u/.tvm'', Dir True),
        (''/home/u/.tvm/terraform_1.5.0_linux_amd64'', File 493 (Raw ''ELF 1.5.0'')),
        (''/home/u/.tvm/tmp'', Dir True)]" unfolding reset_def w_def by code_simp
  have A: "install_terraform ?H ([''1.5.0''] @ ''9.9.9'' # [''1.4.0'']) ?init =
          (SysExit 1,
           reset\<lparr>stdout := stdout reset @
                 [''Downloading from https://releases.hashicorp.com/terraform/'' @ ''9.9.9''
                    @ ''/terraform_'' @ ''9.9.9'' @ ''_'' @ ''linux_amd64'' @ ''.zip...'',
                  if (403::int) = 403 then ''ERROR: Invalid Terraform version.''
                  else ''ERROR: Request not successful. Response code: '' @ str_int 403],
               fetched := fetched reset @
                 [''https://releases.hashicorp.com/terraform/'' @ ''9.9.9''
                    @ ''/terraform_'' @ ''9.9.9'' @ ''_'' @ ''linux_amd64'' @ ''.zip'']\<rparr>)"
    using fetch_failure_is_fatal [OF a1 a2 a3 a4 a5] by simp
  let ?D = "example_host ''Darwin'' ''arm64''"
  define vreset where "vreset = snd (reset_temp_dir ''/home/u/.tvm/tmp'' ?init)"
  have td: "TVM_PATH ?D = ''/home/u/.tvm''" by code_simp
  have b1: "fst (get_osinfo ?D ?init) = Ok ''darwin_arm64''" by code_simp
  have b2: "install_versions ?D ''darwin_arm64'' [] ?init = (Ok (), ?init)" by simp
  have "\<not> os_path_isfile (disk ?init) (TVM_PATH ?D @ ''/terraform_'' @ ''1.5.0'' @ ''_'' @ ''darwin_arm64'')"
    by code_simp
  then have b3: "confirm_overwrite ''1.5.0'' (TVM_PATH ?D @ ''/terraform_'' @ ''1.5.0'' @ ''_'' @ ''darwin_arm64'') ?init
            = (Ok (), ?init)" by (simp add: confirm_overwrite_def)
  have "fst (reset_temp_dir (TVM_PATH ?D @ ''/tmp'') ?init) = Ok ()" by code_simp
  then have b4: "reset_temp_dir (TVM_PATH ?D @ ''/tmp'') ?init = (Ok (), vreset)"
    by (simp add: prod_eq_iff td vreset_def)
  have b5: "requests_get ?D (''https://releases.hashicorp.com/terraform/'' @ ''1.5.0''
                         @ ''/terraform_'' @ ''1.5.0'' @ ''_'' @ ''darwin_arm64'' @ ''.zip'')
            = Response 500 (Raw ''Internal Server Error'')" by code_simp
  have sv: "stdout vreset = []" unfolding vreset_def by code_simp
  have n500: "str_int 500 = ''500''" by code_simp
  have B: "install_terraform ?D ([] @ ''1.5.0'' # [''1.4.0'']) ?init =
          (SysExit 1,
           vreset\<lparr>stdout := stdout vreset @
                 [''Downloading from https://releases.hashicorp.com/terraform/'' @ ''1.5.0''
                    @ ''/terraform_'' @ ''1.5.0'' @ ''_'' @ ''darwin_arm64'' @ ''.zip...'',
                  if (500::int) = 403 then ''ERROR: Invalid Terraform version.''
                  else ''ERROR: Request not successful. Response code: '' @ str_int 500],
               fetched := fetched vreset @
                 [''https://releases.hashicorp.com/terraform/'' @ ''1.5.0''
                    @ ''/terraform_'' @ ''1.5.0'' @ ''_'' @ ''darwin_arm64'' @ ''.zip'']\<rparr>)"
    using fetch_failure_is_fatal [OF b1 b2 b3 b4 b5] by simp
  show ?thesis using A B by (simp add: s2 d2 sv n500)
qed

text \<open>
  Claim C8. When the operator declines the overwrite prompt of \<open>install_terraform\<close> (any
  answer whose lower case is neither \<open>y\<close> nor \<open>yes\<close>) or the download prompt of
  \<open>use_terraform\<close> (an answer whose lower case is \<open>n\<close> or \<open>no\<close>), the run exits with code 0;
  only the console changed (the answer is consumed, the prompt and \<open>Quitting.\<close> are
  printed), so no file is touched and nothing is requested, for this version or a later
  one. The fatal cases exit with code 1: an unsupported platform, and a response other
  than 200.
\<close>

theorem declined_prompt_exits_cleanly:
  "(fst (get_osinfo H w0) = Ok t \<and> install_versions H t pre w0 = (Ok (), w)
      \<and> os_path_isfile (disk w) (TVM_PATH H @ ''/terraform_'' @ v @ ''_'' @ t)
      \<and> stdin w = answer # pending \<and> lower answer \<noteq> ''y'' \<and> lower answer \<noteq> ''yes'' \<longrightarrow>
    install_terraform H (pre @ v # rest) w0 =
      (SysExit 0,
       w\<lparr>stdin := pending,
         stdout := stdout w @
           [''Terraform v'' @ v @ '' already exists. Do you want to download it again? [y/N]: '',
            ''Quitting.'']\<rparr>))
   \<and> (fst (get_osinfo H w) = Ok t
      \<and> \<not> os_path_isfile (disk w) (TVM_PATH H @ ''/terraform_'' @ v @ ''_'' @ t)
      \<and> stdin w = answer # pending \<and> (lower answer = ''n'' \<or> lower answer = ''no'') \<longrightarrow>
    use_terraform H v w =
      (SysExit 0,
       w\<lparr>stdin := pending,
         stdout := stdout w @
           [''Terraform v'' @ v @ '' cannot be found locally. Do you want to download? [Y/n]: '',
            ''Quitting.'']\<rparr>))
   \<and> (platform_system H \<noteq> ''Darwin'' \<and> platform_system H \<noteq> ''Linux'' \<longrightarrow>
        fst (install_terraform H versions w) = SysExit 1 \<and> fst (use_terraform H v w) = SysExit 1)
   \<and> (requests_get H url = Response status body \<and> status \<noteq> 200 \<longrightarrow>
        fst (download H url zip_file w) = SysExit 1)"
proof (intro conjI impI)
  assume a: "fst (get_osinfo H w0) = Ok t \<and> install_versions H t pre w0 = (Ok (), w)
      \<and> os_path_isfile (disk w) (TVM_PATH H @ ''/terraform_'' @ v @ ''_'' @ t)
      \<and> stdin w = answer # pending \<and> lower answer \<noteq> ''y'' \<and> lower answer \<noteq> ''yes''"
  then have "install_terraform H (pre @ v # rest) w0
         = and_then (install_body H t v w) (\<lambda>u. install_versions H t rest)"
    using install_terraform_batch by blast
  then show "install_terraform H (pre @ v # rest) w0 =
      (SysExit 0,
       w\<lparr>stdin := pending,
         stdout := stdout w @
           [''Terraform v'' @ v @ '' already exists. Do you want to download it again? [y/N]: '',
            ''Quitting.'']\<rparr>)"
    using a by (simp add: install_body_def Let_def confirm_overwrite_def input_def print_def
        and_then_def)
next
  assume b: "fst (get_osinfo H w) = Ok t
      \<and> \<not> os_path_isfile (disk w) (TVM_PATH H @ ''/terraform_'' @ v @ ''_'' @ t)
      \<and> stdin w = answer # pending \<and> (lower answer = ''n'' \<or> lower answer = ''no'')"
  then have "get_osinfo H w = (Ok t, w)" using get_osinfo_world by blast
  then show "use_terraform H v w =
      (SysExit 0,
       w\<lparr>stdin := pending,
         stdout := stdout w @
           [''Terraform v'' @ v @ '' cannot be found locally. Do you want to download? [Y/n]: '',
            ''Quitting.'']\<rparr>)"
    using b by (auto simp: use_terraform_def Let_def input_def print_def and_then_def)
next
  assume "platform_system H \<noteq> ''Darwin'' \<and> platform_system H \<noteq> ''Linux''"
  then show "fst (install_terraform H versions w) = SysExit 1"
    by (simp add: install_terraform_def get_osinfo_def and_then_def)
next
  assume "platform_system H \<noteq> ''Darwin'' \<and> platform_system H \<noteq> ''Linux''"
  then show "fst (use_terraform H v w) = SysExit 1"
    by (simp add: use_terraform_def get_osinfo_def and_then_def)
next
  assume "requests_get H url = Response status body \<and> status \<noteq> 200"
  then show "fst (download H url zip_file w) = SysExit 1"
    by (simp add: download_def Let_def)
qed

theorem declined_prompt_exits_cleanly_witness:
  "install_terraform (example_host ''Linux'' ''x86_64'') [''1.5.0'', ''1.4.0'']
       (example_world example_installed [''N''])
     = (SysExit 0,
        (example_world example_installed [''N''])\<lparr>stdin := [],
           stdout := [''Terraform v1.5.0 already exists. Do you want to download it again? [y/N]: '',
                      ''Quitting.'']\<rparr>)
   \<and> use_terraform (example_host ''Linux'' ''x86_64'') ''1.5.0'' (example_world [] [''No''])
     = (SysExit 0,
        (example_world [] [''No''])\<lparr>stdin := [],
           stdout := [''Terraform v1.5.0 cannot be found locally. Do you want to download? [Y/n]: '',
                      ''Quitting.'']\<rparr>)
   \<and> fst (install_terraform (example_host ''Windows'' ''AMD64'') [''1.5.0''] (example_world [] []))
     = SysExit 1
   \<and> fst (download (example_host ''Linux'' ''x86_64'')
            ''https://releases.hashicorp.com/terraform/9.9.9/terraform_9.9.9_linux_amd64.zip''
            ''/home/u/.tvm/tmp/terraform_9.9.9_linux_amd64.zip'' (example_world [] []))
     = SysExit 1"
proof -
  let ?H = "example_host ''Linux'' ''x86_64''"
  let ?a = "example_world example_installed [''N'']"
  let ?b = "example_world [] [''No'']"
  have os: "fst (get_osinfo ?H ?a) = Ok ''linux_amd64''" "fst (get_osinfo ?H ?b) = Ok ''linux_amd64''"
    by code_simp+
  have a1: "os_path_isfile (disk ?a) (TVM_PATH ?H @ ''/terraform_'' @ ''1.5.0'' @ ''_'' @ ''linux_amd64'')"
    by code_simp
  have a2: "stdin ?a = ''N'' # []" "stdout ?a = []" by code_simp+
  have a3: "lower ''N'' \<noteq> ''y''" "lower ''N'' \<noteq> ''yes''" by code_simp+
  have A: "install_terraform ?H ([] @ ''1.5.0'' # [''1.4.0'']) ?a =
      (SysExit 0,
       ?a\<lparr>stdin := [],
         stdout := stdout ?a @
           [''Terraform v'' @ ''1.5.0'' @ '' already exists. Do you want to download it again? [y/N]: '',
            ''Quitting.'']\<rparr>)"
    using declined_prompt_exits_cleanly [where H = ?H and ?w0.0 = ?a and w = ?a and t = "''linux_amd64''"
        and pre = "[]" and v = "''1.5.0''" and answer = "''N''" and pending = "[]"
        and rest = "[''1.4.0'']"]
      os(1) a1 a2(1) a3 by simp
  have b1: "\<not> os_path_isfile (disk ?b) (TVM_PATH ?H @ ''/terraform_'' @ ''1.5.0'' @ ''_'' @ ''linux_amd64'')"
    by code_simp
  have b2: "stdin ?b = ''No'' # []" "stdout ?b = []" by code_simp+
  have b3: "lower ''No'' = ''no''" by code_simp
  have B: "use_terraform ?H ''1.5.0'' ?b =
      (SysExit 0,
       ?b\<lparr>stdin := [],
         stdout := stdout ?b @
           [''Terraform v'' @ ''1.5.0'' @ '' cannot be found locally. Do you want to download? [Y/n]: '',
            ''Quitting.'']\<rparr>)"
    using declined_prompt_exits_cleanly [where H = ?H and w = ?b and t = "''linux_amd64''"
        and v = "''1.5.0''" and answer = "''No''" and pending = "[]"]
      os(2) b1 b2(1) b3 by simp
  have C: "fst (install_terraform (example_host ''Windows'' ''AMD64'') [''1.5.0''] (example_world [] []))
     = SysExit 1"
    using declined_prompt_exits_cleanly [where H = "example_host ''Windows'' ''AMD64''"
        and versions = "[''1.5.0'']" and w = "example_world [] []"]
    by (simp add: example_host_def)
  have d: "requests_get ?H ''https://releases.hashicorp.com/terraform/9.9.9/terraform_9.9.9_linux_amd64.zip''
        = Response 403 (Raw ''Forbidden'')" by code_simp
  have D: "fst (download ?H
            ''https://releases.hashicorp.com/terraform/9.9.9/terraform_9.9.9_linux_amd64.zip''
            ''/home/u/.tvm/tmp/terraform_9.9.9_linux_amd64.zip'' (example_world [] []))
     = SysExit 1"
    using declined_prompt_exits_cleanly [where H = ?H
        and url = "''https://releases.hashicorp.com/terraform/9.9.9/terraform_9.9.9_linux_amd64.zip''"
        and status = 403 and body = "Raw ''Forbidden''"
        and zip_file = "''/home/u/.tvm/tmp/terraform_9.9.9_linux_amd64.zip''"
        and w = "example_world [] []"] d
    by simp
  show ?thesis using A B C D by (simp add: a2 b2)
qed

subsection \<open>use_terraform and a dangling link\<close>

text \<open>
  Claim C2, at a dangling link. Version 1.5.0 is installed and \<^verbatim>\<open>TVM_PATH/terraform\<close> is a
  symbolic link to a file that is gone. \<^verbatim>\<open>os.path.isfile\<close> is false for such a link, line
  114 does not remove it, and \<^verbatim>\<open>os.symlink\<close> raises \<^verbatim>\<open>FileExistsError\<close>: the run ends
  with the old link in place.
\<close>

theorem use_terraform_broken_link:
  "os_path_islink (disk (example_world example_broken [])) ''/home/u/.tvm/terraform''
   \<and> \<not> os_path_exists (disk (example_world example_broken [])) ''/home/u/.tvm/terraform''
   \<and> os_path_isfile (disk (example_world example_broken []))
         ''/home/u/.tvm/terraform_1.5.0_linux_amd64''
   \<and> use_terraform (example_host ''Linux'' ''x86_64'') ''1.5.0'' (example_world example_broken [])
       = (Raise FileExistsError,
          (example_world example_broken [])\<lparr>stdout :=
             [''Creating a symbolic link for /home/u/.tvm/terraform_1.5.0_linux_amd64 to /home/u/.tvm/terraform'']\<rparr>)"
  by code_simp

subsection \<open>install_terraform and the scratch directory\<close>




subsection \<open>What the file operations leave alone\<close>








































subsection \<open>install_terraform: the installed file\<close>



subsection \<open>use_terraform after install_terraform\<close>










end
